theory Spec2Isabelle
  imports Main "HOL-Library.Char_ord" "HOL-Library.List_Lexorder"
begin

section \<open>Exceptions\<close>

text \<open>
  The module is Python 2 code (\<^verbatim>\<open>unittest_local_copy.py\<close>, a modified PyUnit).
  An exception class is a name with its base classes; \<^verbatim>\<open>except C:\<close> catches an
  exception whose class is \<open>C\<close> or derives from \<open>C\<close>, while \<^verbatim>\<open>err[0] is C\<close>
  compares the class itself.
\<close>

datatype exc_class = ExcClass (exc_name: string) (exc_bases: "exc_class list")

fun issubclass :: "exc_class \<Rightarrow> exc_class \<Rightarrow> bool" where
  "issubclass (ExcClass n bs) d = (ExcClass n bs = d \<or> list_ex (\<lambda>b. issubclass b d) bs)"

definition Exception :: exc_class where
  "Exception = ExcClass ''Exception'' []"

definition StandardError :: exc_class where
  "StandardError = ExcClass ''StandardError'' [Exception]"

definition AssertionError :: exc_class where
  "AssertionError = ExcClass ''AssertionError'' [StandardError]"

definition KeyboardInterrupt :: exc_class where
  "KeyboardInterrupt = ExcClass ''KeyboardInterrupt'' [StandardError]"

text \<open>
  The triple of \<^verbatim>\<open>sys.exc_info()\<close>: the class, the value (its message) and the
  traceback, a chain of frames from the handler's own frame inwards.
\<close>

record exc_info =
  exctype :: exc_class
  excvalue :: string
  tb :: "string list"

text \<open>
  \<^verbatim>\<open>TestCase.__exc_info\<close>: the traceback without its top frame, unless the platform
  is Jython or there is no further frame.
\<close>

definition exc_info_min :: "string \<Rightarrow> exc_info \<Rightarrow> exc_info" where
  "exc_info_min sys_platform e =
     (if take 4 sys_platform = ''java'' then e
      else (case tb e of
              [] \<Rightarrow> e
            | f # newtb \<Rightarrow> (if newtb = [] then e else e\<lparr>tb := newtb\<rparr>)))"

section \<open>Test cases\<close>

text \<open>
  A hook (\<^verbatim>\<open>setUp\<close>, the test method, \<^verbatim>\<open>tearDown\<close>) is arbitrary user code: it
  acts on the state of the world \<open>'w\<close> (the fixture and everything else it can reach)
  and either returns or raises. Hooks are taken to terminate.
\<close>

type_synonym 'w hook = "'w \<Rightarrow> exc_info option \<times> 'w"

text \<open>
  A \<^verbatim>\<open>TestCase\<close> instance after \<^verbatim>\<open>__init__\<close>. \<open>testMethodName\<close>, \<open>testMethod\<close>,
  \<open>tc_id\<close>, \<open>description\<close> and \<open>explanation\<close> are the attributes
  \<^verbatim>\<open>_testMethodName\<close>, \<^verbatim>\<open>_testMethod\<close>, \<^verbatim>\<open>_id\<close>, \<^verbatim>\<open>_description\<close> and
  \<^verbatim>\<open>_explanation\<close>; \<open>tc_name\<close> is \<^verbatim>\<open>name\<close> as a string.
\<close>

record 'w TestCase =
  testMethodName :: string
  testMethod :: "'w hook"
  setUp :: "'w hook"
  tearDown :: "'w hook"
  failureException :: exc_class
  tc_name :: string
  tc_id :: string
  description :: string
  explanation :: string

section \<open>Result collectors\<close>

record 'w TestResult =
  failures :: "('w TestCase \<times> exc_info) list"
  errors :: "('w TestCase \<times> exc_info) list"
  testsRun :: int
  shouldStop :: int

definition TestResult_init :: "'w TestResult" where
  "TestResult_init = \<lparr>failures = [], errors = [], testsRun = 0, shouldStop = 0\<rparr>"

definition TestResult_startTest ::
    "('w, 'z) TestResult_scheme \<Rightarrow> 'w TestCase \<Rightarrow> ('w, 'z) TestResult_scheme" where
  "TestResult_startTest self test = self\<lparr>testsRun := testsRun self + 1\<rparr>"

definition TestResult_stopTest ::
    "('w, 'z) TestResult_scheme \<Rightarrow> 'w TestCase \<Rightarrow> ('w, 'z) TestResult_scheme" where
  "TestResult_stopTest self test = self"

definition TestResult_addError ::
    "('w, 'z) TestResult_scheme \<Rightarrow> 'w TestCase \<Rightarrow> exc_info \<Rightarrow> ('w, 'z) TestResult_scheme" where
  "TestResult_addError self test err = self\<lparr>errors := errors self @ [(test, err)]\<rparr>"

definition TestResult_addFailure ::
    "('w, 'z) TestResult_scheme \<Rightarrow> 'w TestCase \<Rightarrow> exc_info \<Rightarrow> ('w, 'z) TestResult_scheme" where
  "TestResult_addFailure self test err = self\<lparr>failures := failures self @ [(test, err)]\<rparr>"

definition TestResult_addSuccess ::
    "('w, 'z) TestResult_scheme \<Rightarrow> 'w TestCase \<Rightarrow> ('w, 'z) TestResult_scheme" where
  "TestResult_addSuccess self test = self"

definition TestResult_wasSuccessful :: "('w, 'z) TestResult_scheme \<Rightarrow> bool" where
  "TestResult_wasSuccessful self =
     (length (failures self) = length (errors self) \<and> length (errors self) = 0)"

definition TestResult_stop :: "('w, 'z) TestResult_scheme \<Rightarrow> ('w, 'z) TestResult_scheme" where
  "TestResult_stop self = self\<lparr>shouldStop := 1\<rparr>"

text \<open>
  \<^verbatim>\<open>_TextTestResult(TestResult, StreamWrapper)\<close>: the two streams are the text written
  to them so far.
\<close>

record 'w TextTestResult = "'w TestResult" +
  streamOut :: string
  streamErr :: string
  verbosity :: int
  showAll :: bool
  dots :: bool
  explain :: bool

definition TextTestResult_init :: "string \<Rightarrow> string \<Rightarrow> int \<Rightarrow> bool \<Rightarrow> 'w TextTestResult" where
  "TextTestResult_init stream errStream v ex =
     \<lparr>failures = [], errors = [], testsRun = 0, shouldStop = 0,
      streamOut = stream, streamErr = errStream,
      verbosity = v, showAll = (v > 1), dots = (v = 1), explain = ex\<rparr>"

definition StreamWrapper_write :: "'w TextTestResult \<Rightarrow> string \<Rightarrow> 'w TextTestResult" where
  "StreamWrapper_write self txt = self\<lparr>streamOut := streamOut self @ txt\<rparr>"

definition StreamWrapper_writeln :: "'w TextTestResult \<Rightarrow> string list \<Rightarrow> 'w TextTestResult" where
  "StreamWrapper_writeln self lines =
     (let self' = foldl (\<lambda>s line. StreamWrapper_write s (line @ [CHR 0x0A])) self lines
      in if lines = [] then StreamWrapper_write self' [CHR 0x0A] else self')"

definition TextTestResult_stop :: "'w TextTestResult \<Rightarrow> 'w TextTestResult" where
  "TextTestResult_stop self = self\<lparr>shouldStop := 1\<rparr>"

definition TextTestResult_startTest :: "'w TextTestResult \<Rightarrow> 'w TestCase \<Rightarrow> 'w TextTestResult" where
  "TextTestResult_startTest self test =
     (let self1 = TestResult_startTest self test
      in if showAll self1
         then StreamWrapper_write (StreamWrapper_write self1 (tc_id test @ '' ('' @ description test @ '')'')) '' ... ''
         else self1)"

definition TextTestResult_addSuccess :: "'w TextTestResult \<Rightarrow> 'w TestCase \<Rightarrow> 'w TextTestResult" where
  "TextTestResult_addSuccess self test =
     (let self1 = TestResult_addSuccess self test
      in if showAll self1 then StreamWrapper_writeln self1 [''ok'']
         else if dots self1 then StreamWrapper_write self1 ''.''
         else self1)"

definition TextTestResult_addError ::
    "'w TextTestResult \<Rightarrow> 'w TestCase \<Rightarrow> exc_info \<Rightarrow> 'w TextTestResult" where
  "TextTestResult_addError self test err =
     (let self1 = TestResult_addError self test err;
          self2 = (if showAll self1 then StreamWrapper_writeln self1 [''ERROR'']
                   else if dots self1 then StreamWrapper_write self1 ''E''
                   else self1)
      in if exctype err = KeyboardInterrupt then TextTestResult_stop self2 else self2)"

definition TextTestResult_addFailure ::
    "'w TextTestResult \<Rightarrow> 'w TestCase \<Rightarrow> exc_info \<Rightarrow> 'w TextTestResult" where
  "TextTestResult_addFailure self test err =
     (let self1 = TestResult_addFailure self test err
      in if showAll self1 then StreamWrapper_writeln self1 [''FAIL'']
         else if dots self1 then StreamWrapper_write self1 ''F''
         else self1)"

text \<open>
  The collector handed to a run is an instance of either class; a method call on it
  goes to the instance's class.
\<close>

datatype 'w collector = Plain "'w TestResult" | Text "'w TextTestResult"

fun startTest :: "'w collector \<Rightarrow> 'w TestCase \<Rightarrow> 'w collector" where
  "startTest (Plain r) test = Plain (TestResult_startTest r test)"
| "startTest (Text r) test = Text (TextTestResult_startTest r test)"

fun stopTest :: "'w collector \<Rightarrow> 'w TestCase \<Rightarrow> 'w collector" where
  "stopTest (Plain r) test = Plain (TestResult_stopTest r test)"
| "stopTest (Text r) test = Text (TestResult_stopTest r test)"

fun addError :: "'w collector \<Rightarrow> 'w TestCase \<Rightarrow> exc_info \<Rightarrow> 'w collector" where
  "addError (Plain r) test err = Plain (TestResult_addError r test err)"
| "addError (Text r) test err = Text (TextTestResult_addError r test err)"

fun addFailure :: "'w collector \<Rightarrow> 'w TestCase \<Rightarrow> exc_info \<Rightarrow> 'w collector" where
  "addFailure (Plain r) test err = Plain (TestResult_addFailure r test err)"
| "addFailure (Text r) test err = Text (TextTestResult_addFailure r test err)"

fun addSuccess :: "'w collector \<Rightarrow> 'w TestCase \<Rightarrow> 'w collector" where
  "addSuccess (Plain r) test = Plain (TestResult_addSuccess r test)"
| "addSuccess (Text r) test = Text (TextTestResult_addSuccess r test)"


fun wasSuccessful :: "'w collector \<Rightarrow> bool" where
  "wasSuccessful (Plain r) = TestResult_wasSuccessful r"
| "wasSuccessful (Text r) = TestResult_wasSuccessful r"

fun get_failures :: "'w collector \<Rightarrow> ('w TestCase \<times> exc_info) list" where
  "get_failures (Plain r) = failures r"
| "get_failures (Text r) = failures r"

fun get_errors :: "'w collector \<Rightarrow> ('w TestCase \<times> exc_info) list" where
  "get_errors (Plain r) = errors r"
| "get_errors (Text r) = errors r"

fun get_testsRun :: "'w collector \<Rightarrow> int" where
  "get_testsRun (Plain r) = testsRun r"
| "get_testsRun (Text r) = testsRun r"

fun get_shouldStop :: "'w collector \<Rightarrow> int" where
  "get_shouldStop (Plain r) = shouldStop r"
| "get_shouldStop (Text r) = shouldStop r"

section \<open>Running one test case\<close>

text \<open>
  What a run does besides changing the collector and the world is to make calls; the
  state of a run keeps them in order. \<open>platform\<close> is \<^verbatim>\<open>sys.platform\<close>.
\<close>

datatype 'w call =
    Call_startTest "'w TestCase"
  | Call_stopTest "'w TestCase"
  | Call_addError "'w TestCase" exc_info
  | Call_addFailure "'w TestCase" exc_info
  | Call_addSuccess "'w TestCase"
  | Call_setUp "'w TestCase"
  | Call_testMethod "'w TestCase"
  | Call_tearDown "'w TestCase"

record 'w run_state =
  result :: "'w collector"
  world :: 'w
  calls :: "'w call list"
  platform :: string

definition do_startTest :: "'w TestCase \<Rightarrow> 'w run_state \<Rightarrow> 'w run_state" where
  "do_startTest self st =
     st\<lparr>result := startTest (result st) self, calls := calls st @ [Call_startTest self]\<rparr>"

definition do_stopTest :: "'w TestCase \<Rightarrow> 'w run_state \<Rightarrow> 'w run_state" where
  "do_stopTest self st =
     st\<lparr>result := stopTest (result st) self, calls := calls st @ [Call_stopTest self]\<rparr>"

definition do_addError :: "'w TestCase \<Rightarrow> exc_info \<Rightarrow> 'w run_state \<Rightarrow> 'w run_state" where
  "do_addError self err st =
     st\<lparr>result := addError (result st) self err, calls := calls st @ [Call_addError self err]\<rparr>"

definition do_addFailure :: "'w TestCase \<Rightarrow> exc_info \<Rightarrow> 'w run_state \<Rightarrow> 'w run_state" where
  "do_addFailure self err st =
     st\<lparr>result := addFailure (result st) self err, calls := calls st @ [Call_addFailure self err]\<rparr>"

definition do_addSuccess :: "'w TestCase \<Rightarrow> 'w run_state \<Rightarrow> 'w run_state" where
  "do_addSuccess self st =
     st\<lparr>result := addSuccess (result st) self, calls := calls st @ [Call_addSuccess self]\<rparr>"

definition invoke ::
    "'w call \<Rightarrow> 'w hook \<Rightarrow> 'w run_state \<Rightarrow> exc_info option \<times> 'w run_state" where
  "invoke c h st =
     (case h (world st) of (raised, w') \<Rightarrow> (raised, st\<lparr>world := w', calls := calls st @ [c]\<rparr>))"

text \<open>
  \<^verbatim>\<open>TestCase.__call__\<close> on the collector \<open>result st\<close>, in its three phases. The
  first component of \<open>TestCase_call\<close> is what the call returns: \<open>None\<close> after the
  \<^verbatim>\<open>return\<close> in the handler of \<^verbatim>\<open>setUp\<close>, the collector otherwise.
  \<open>TestCase_call_None\<close> is the call with \<^verbatim>\<open>result=None\<close>.
\<close>

definition run_setUp :: "'w TestCase \<Rightarrow> 'w run_state \<Rightarrow> bool \<times> 'w run_state" where
  "run_setUp self st =
     (case invoke (Call_setUp self) (setUp self) st of
        (None, st') \<Rightarrow> (True, st')
      | (Some e, st') \<Rightarrow> (False, do_addError self (exc_info_min (platform st') e) st'))"

definition run_testMethod :: "'w TestCase \<Rightarrow> 'w run_state \<Rightarrow> int \<times> 'w run_state" where
  "run_testMethod self st =
     (case invoke (Call_testMethod self) (testMethod self) st of
        (None, st') \<Rightarrow> (1, st')
      | (Some e, st') \<Rightarrow>
          (if issubclass (exctype e) (failureException self)
           then (0, do_addFailure self (exc_info_min (platform st') e) st')
           else (0, do_addError self (exc_info_min (platform st') e) st')))"

definition run_tearDown :: "'w TestCase \<Rightarrow> int \<Rightarrow> 'w run_state \<Rightarrow> int \<times> 'w run_state" where
  "run_tearDown self ok st =
     (case invoke (Call_tearDown self) (tearDown self) st of
        (None, st') \<Rightarrow> (ok, st')
      | (Some e, st') \<Rightarrow> (0, do_addError self (exc_info_min (platform st') e) st'))"

definition TestCase_call ::
    "'w TestCase \<Rightarrow> 'w run_state \<Rightarrow> 'w collector option \<times> 'w run_state" where
  "TestCase_call self st0 =
     (let st1 = do_startTest self st0 in
      case run_setUp self st1 of
        (False, st2) \<Rightarrow> (None, do_stopTest self st2)
      | (True, st2) \<Rightarrow>
          (case run_testMethod self st2 of (ok, st3) \<Rightarrow>
           case run_tearDown self ok st3 of (ok', st4) \<Rightarrow>
             (let st5 = (if ok' \<noteq> 0 then do_addSuccess self st4 else st4);
                  st6 = do_stopTest self st5
              in (Some (result st6), st6))))"

definition defaultTestResult :: "'w TestCase \<Rightarrow> 'w collector" where
  "defaultTestResult self = Plain TestResult_init"

definition TestCase_call_None ::
    "'w TestCase \<Rightarrow> 'w run_state \<Rightarrow> 'w collector option \<times> 'w run_state" where
  "TestCase_call_None self st = TestCase_call self (st\<lparr>result := defaultTestResult self\<rparr>)"

definition TestCase_countTestCases :: "'w TestCase \<Rightarrow> int" where
  "TestCase_countTestCases self = 1"

section \<open>Strings\<close>

text \<open>
  The string methods the module uses, on Python 2 byte strings: \<^verbatim>\<open>splitlines\<close>
  breaks at LF, CR and CR LF and drops the breaks; \<^verbatim>\<open>strip\<close> removes leading
  and trailing whitespace; \<^verbatim>\<open>sep.join\<close>.
\<close>

fun splitlines_from :: "string \<Rightarrow> string \<Rightarrow> string list" where
  "splitlines_from cur [] = (if cur = [] then [] else [cur])"
| "splitlines_from cur [c] = (if c = CHR 0x0A \<or> c = CHR 0x0D then [cur] else [cur @ [c]])"
| "splitlines_from cur (c # d # cs) =
     (if c = CHR 0x0D \<and> d = CHR 0x0A then cur # splitlines_from [] cs
      else if c = CHR 0x0A \<or> c = CHR 0x0D then cur # splitlines_from [] (d # cs)
      else splitlines_from (cur @ [c]) (d # cs))"

definition splitlines :: "string \<Rightarrow> string list" where
  "splitlines s = splitlines_from [] s"

definition isspace :: "char \<Rightarrow> bool" where
  "isspace c = (c = CHR '' '' \<or> c = CHR 0x09 \<or> c = CHR 0x0A \<or> c = CHR 0x0B
                \<or> c = CHR 0x0C \<or> c = CHR 0x0D)"

definition strip :: "string \<Rightarrow> string" where
  "strip s = rev (dropWhile isspace (rev (dropWhile isspace s)))"

fun join :: "string \<Rightarrow> string list \<Rightarrow> string" where
  "join sep [] = []"
| "join sep [x] = x"
| "join sep (x # y # ys) = x @ sep @ join sep (y # ys)"

section \<open>Fixture classes and the construction of a test case\<close>

text \<open>
  A class derived from \<^verbatim>\<open>TestCase\<close>: its \<^verbatim>\<open>__name__\<close>, \<^verbatim>\<open>__module__\<close> and
  \<^verbatim>\<open>__doc__\<close>, the values its instances see for the class attributes \<^verbatim>\<open>name\<close>
  and \<^verbatim>\<open>failureException\<close>, the callables of its own \<^verbatim>\<open>__dict__\<close> (each with
  its \<^verbatim>\<open>__doc__\<close> and its behaviour when called on an instance) and its
  \<^verbatim>\<open>__bases__\<close> below \<^verbatim>\<open>TestCase\<close>. What \<^verbatim>\<open>TestCase\<close> itself defines is inherited
  by every class: \<^verbatim>\<open>setUp\<close> and \<^verbatim>\<open>tearDown\<close> that do nothing.
\<close>

datatype 'w fixture_class = FixtureClass
  (cls_name: string)
  (cls_module: string)
  (cls_doc: "string option")
  (cls_fixture_name: "string option")
  (cls_failureException: exc_class)
  (cls_dict: "(string \<times> string option \<times> 'w hook) list")
  (cls_bases: "'w fixture_class list")

fun first_found :: "'a option list \<Rightarrow> 'a option" where
  "first_found [] = None"
| "first_found (Some x # xs) = Some x"
| "first_found (None # xs) = first_found xs"

text \<open>Attribute lookup of classic classes: the class, then its bases, depth first.\<close>

fun class_lookup :: "'w fixture_class \<Rightarrow> string \<Rightarrow> (string option \<times> 'w hook) option" where
  "class_lookup (FixtureClass n m d fn fe dict bases) a =
     (case map_of dict a of
        Some v \<Rightarrow> Some v
      | None \<Rightarrow> first_found (map (\<lambda>b. class_lookup b a) bases))"

definition pass_hook :: "'w hook" where
  "pass_hook w = (None, w)"

definition inherited_hook :: "'w fixture_class \<Rightarrow> string \<Rightarrow> 'w hook" where
  "inherited_hook c a = (case class_lookup c a of Some (d, h) \<Rightarrow> h | None \<Rightarrow> pass_hook)"

text \<open>\<^verbatim>\<open>str\<close> of a classic class.\<close>

definition str_class :: "'w fixture_class \<Rightarrow> string" where
  "str_class c = cls_module c @ ''.'' @ cls_name c"

datatype py_error = ValueError string | KeyError string

text \<open>
  \<^verbatim>\<open>TestCase._setupMetaData\<close>, as a function of what it reads: the class, the name
  of the test method and the docstring of the test method. The first line of a
  docstring and the rest of it are computed the same way for the method and the class.
\<close>

definition doc_or_newline :: "string option \<Rightarrow> string" where
  "doc_or_newline doc = (case doc of None \<Rightarrow> [CHR 0x0A] | Some d \<Rightarrow> if d = [] then [CHR 0x0A] else d)"

definition doc_description :: "string option \<Rightarrow> string" where
  "doc_description doc =
     (let docLines = splitlines (doc_or_newline doc)
      in (case docLines of [] \<Rightarrow> [] | l # ls \<Rightarrow> strip l))"

definition doc_explanation :: "string option \<Rightarrow> string" where
  "doc_explanation doc =
     (let docLines = splitlines (doc_or_newline doc)
      in if length docLines > 1
         then strip (join [CHR 0x0A] (map strip (tl docLines)))
         else [])"

definition setupMetaData ::
    "'w fixture_class \<Rightarrow> string \<Rightarrow> string option \<Rightarrow> string \<times> string \<times> string \<times> string" where
  "setupMetaData c methodName methodDoc =
     (let testDescription = doc_description methodDoc;
          testExplanation = doc_explanation methodDoc;
          fixtureDescription = doc_description (cls_doc c);
          fixtureExplanation = doc_explanation (cls_doc c);
          name = (case cls_fixture_name c of
                    None \<Rightarrow> str_class c
                  | Some n \<Rightarrow> if n = [] then str_class c else n);
          ident = name @ ''.'' @ methodName;
          descr = (if fixtureDescription = [] then testDescription
                   else fixtureDescription @ '', '' @ testDescription);
          expl = (if fixtureExplanation = [] then testExplanation
                  else join [CHR 0x0A]
                         [''Fixture Explanation:'', ''--------------------'', fixtureExplanation,
                          [], ''Test Explanation:'', ''-----------------'', testExplanation])
      in (name, ident, descr, expl))"

text \<open>
  \<^verbatim>\<open>TestCase.__init__\<close>, called as \<^verbatim>\<open>testCaseClass(methodName)\<close>:
  \<^verbatim>\<open>_setupTestMethod\<close> raises \<^verbatim>\<open>ValueError\<close> when the instance has no such
  attribute.
\<close>

definition TestCase_init :: "'w fixture_class \<Rightarrow> string \<Rightarrow> py_error + 'w TestCase" where
  "TestCase_init c methodName =
     (case class_lookup c methodName of
        None \<Rightarrow> Inl (ValueError (''no such test method in '' @ str_class c @ '': '' @ methodName))
      | Some (methodDoc, body) \<Rightarrow>
          (case setupMetaData c methodName methodDoc of (name, ident, descr, expl) \<Rightarrow>
             Inr \<lparr>testMethodName = methodName, testMethod = body,
                  setUp = inherited_hook c ''setUp'', tearDown = inherited_hook c ''tearDown'',
                  failureException = cls_failureException c,
                  tc_name = name, tc_id = ident, description = descr, explanation = expl\<rparr>))"

section \<open>Test suites\<close>

text \<open>
  What a \<^verbatim>\<open>TestSuite\<close> holds is a test case or another suite. A suite has the list
  \<^verbatim>\<open>_tests\<close>, the dictionary \<^verbatim>\<open>_testMap\<close>, its \<^verbatim>\<open>suiteName\<close> and the name of
  its class (\<^verbatim>\<open>TestSuite\<close> or a subclass of it).
\<close>

datatype 'w test = Case "'w TestCase" | Nested "'w TestSuite"
and 'w TestSuite = TestSuite
  (tests: "'w test list")
  (testMap: "string \<Rightarrow> 'w test option")
  (suiteName: "string option")
  (suite_class: string)

fun test_countTestCases :: "'w test \<Rightarrow> int"
and countTestCases :: "'w TestSuite \<Rightarrow> int" where
  "test_countTestCases (Case tc) = TestCase_countTestCases tc"
| "test_countTestCases (Nested s) = countTestCases s"
| "countTestCases (TestSuite ts m n c) =
     foldl (\<lambda>cases test. cases + test_countTestCases test) 0 ts"

text \<open>
  \<^verbatim>\<open>TestSuite.addTest\<close>. \<open>addTest_name\<close> is the \<^verbatim>\<open>name\<close> its
  \<^verbatim>\<open>if\<close>/\<^verbatim>\<open>elif\<close>/\<^verbatim>\<open>else\<close> computes: the \<^verbatim>\<open>suiteName\<close> of a suite that has a
  non-empty one, the \<^verbatim>\<open>_testMethodName\<close> of a test case, the name of the class
  otherwise.
\<close>

definition addTest_name :: "'w test \<Rightarrow> string" where
  "addTest_name test =
     (case test of
        Nested s \<Rightarrow> (case suiteName s of
                       Some n \<Rightarrow> if n \<noteq> [] then n else suite_class s
                     | None \<Rightarrow> suite_class s)
      | Case tc \<Rightarrow> testMethodName tc)"

definition addTest :: "'w TestSuite \<Rightarrow> 'w test \<Rightarrow> 'w TestSuite" where
  "addTest self test =
     (let name = addTest_name test
      in TestSuite (tests self @ [test]) ((testMap self)(name \<mapsto> test))
           (suiteName self) (suite_class self))"

definition addTests :: "'w TestSuite \<Rightarrow> 'w test list \<Rightarrow> 'w TestSuite" where
  "addTests self ts = foldl addTest self ts"

text \<open>\<^verbatim>\<open>TestSuite.__init__\<close>, for an instance of the class named \<open>cls\<close>.\<close>

definition TestSuite_init :: "string \<Rightarrow> 'w test list \<Rightarrow> string option \<Rightarrow> 'w TestSuite" where
  "TestSuite_init cls ts name = addTests (TestSuite [] Map.empty name cls) ts"

definition getTestForName :: "'w TestSuite \<Rightarrow> string \<Rightarrow> py_error + 'w test" where
  "getTestForName self name =
     (case testMap self name of None \<Rightarrow> Inl (KeyError name) | Some t \<Rightarrow> Inr t)"

text \<open>
  \<^verbatim>\<open>TestSuite.__call__\<close>: \<open>run_tests\<close> is its loop, \<open>test_call\<close> the call
  \<^verbatim>\<open>test(result)\<close> of one item.
\<close>

fun test_call :: "'w test \<Rightarrow> 'w run_state \<Rightarrow> 'w run_state"
and TestSuite_call :: "'w TestSuite \<Rightarrow> 'w run_state \<Rightarrow> 'w run_state"
and run_tests :: "'w test list \<Rightarrow> 'w run_state \<Rightarrow> 'w run_state" where
  "test_call (Case tc) st = snd (TestCase_call tc st)"
| "test_call (Nested s) st = TestSuite_call s st"
| "TestSuite_call (TestSuite ts m n c) st = run_tests ts st"
| "run_tests [] st = st"
| "run_tests (t # ts) st =
     (if get_shouldStop (result st) \<noteq> 0 then st else run_tests ts (test_call t st))"


section \<open>The loader\<close>

text \<open>
  \<^verbatim>\<open>list.sort(cmpfunc)\<close>, as a stable insertion sort: \<open>x\<close> goes before the first
  element it does not compare greater than.
\<close>

fun insort_cmp :: "('a \<Rightarrow> 'a \<Rightarrow> int) \<Rightarrow> 'a \<Rightarrow> 'a list \<Rightarrow> 'a list" where
  "insort_cmp f x [] = [x]"
| "insort_cmp f x (y # ys) = (if f x y \<le> 0 then x # y # ys else y # insort_cmp f x ys)"

definition sort_cmp :: "('a \<Rightarrow> 'a \<Rightarrow> int) \<Rightarrow> 'a list \<Rightarrow> 'a list" where
  "sort_cmp f xs = foldr (insort_cmp f) xs []"

text \<open>The builtin \<^verbatim>\<open>cmp\<close> on byte strings.\<close>

definition cmp :: "string \<Rightarrow> string \<Rightarrow> int" where
  "cmp a b = (if a < b then - 1 else if a = b then 0 else 1)"

record TestLoader =
  testMethodPrefix :: string
  sortTestMethodsUsing :: "(string \<Rightarrow> string \<Rightarrow> int) option"
  suiteClass :: string

definition defaultTestLoader :: TestLoader where
  "defaultTestLoader =
     \<lparr>testMethodPrefix = ''test'', sortTestMethodsUsing = Some cmp, suiteClass = ''TestSuite''\<rparr>"

text \<open>
  The builtin \<^verbatim>\<open>dir\<close> on a class is a parameter of the loader's functions: it
  lists attribute names of the class (from Python 2.2 on those of its bases as well) in
  sorted order, each name once. \<open>dir_own\<close> is the listing the examples use: the names
  of the class dictionary as modelled, sorted. The builtin lists further names
  (\<^verbatim>\<open>__doc__\<close>, \<^verbatim>\<open>__module__\<close>, and from 2.2 on what \<^verbatim>\<open>TestCase\<close> defines),
  none of which carries the prefix \<^verbatim>\<open>test\<close>.
\<close>

definition dir_own :: "'w fixture_class \<Rightarrow> string list" where
  "dir_own c = sort (remdups (map fst (cls_dict c)))"

fun class_attr_names :: "'w fixture_class \<Rightarrow> string list" where
  "class_attr_names (FixtureClass n m d fn fe dict bases) =
     map fst dict @ concat (map class_attr_names bases)"

fun getTestCaseNames ::
    "('w fixture_class \<Rightarrow> string list) \<Rightarrow> TestLoader \<Rightarrow> 'w fixture_class \<Rightarrow> string list" where
  "getTestCaseNames pydir self (FixtureClass n m d fn fe dict bases) =
     (let p = testMethodPrefix self;
          testFnNames = filter (\<lambda>n. take (length p) n = p)
                          (pydir (FixtureClass n m d fn fe dict bases));
          testFnNames' =
            foldl (\<lambda>names baseclass.
                     foldl (\<lambda>names testFnName.
                              if testFnName \<notin> set names then names @ [testFnName] else names)
                       names (getTestCaseNames pydir self baseclass))
              testFnNames bases
      in (case sortTestMethodsUsing self of
            None \<Rightarrow> testFnNames'
          | Some f \<Rightarrow> sort_cmp f testFnNames'))"

fun map_raise :: "('a \<Rightarrow> 'e + 'b) \<Rightarrow> 'a list \<Rightarrow> 'e + 'b list" where
  "map_raise f [] = Inr []"
| "map_raise f (x # xs) =
     (case f x of
        Inl e \<Rightarrow> Inl e
      | Inr y \<Rightarrow> (case map_raise f xs of Inl e \<Rightarrow> Inl e | Inr ys \<Rightarrow> Inr (y # ys)))"

text \<open>
  \<^verbatim>\<open>TestLoader.loadTestsFromTestCase\<close>: \<^verbatim>\<open>map(testCaseClass, names)\<close> stops at the
  first constructor that raises.
\<close>

definition loadTestsFromTestCase ::
    "('w fixture_class \<Rightarrow> string list) \<Rightarrow> TestLoader \<Rightarrow> 'w fixture_class
       \<Rightarrow> py_error + 'w TestSuite" where
  "loadTestsFromTestCase pydir self testCaseClass =
     (case map_raise (TestCase_init testCaseClass) (getTestCaseNames pydir self testCaseClass) of
        Inl e \<Rightarrow> Inl e
      | Inr tcs \<Rightarrow>
          Inr (TestSuite_init (suiteClass self) (map Case tcs) (Some (cls_name testCaseClass))))"

section \<open>Observations and example inputs\<close>

text \<open>
  The calls by which a run records an outcome, and the calls a run adds to those made
  before it.
\<close>

fun is_outcome :: "'w call \<Rightarrow> bool" where
  "is_outcome (Call_addSuccess t) = True"
| "is_outcome (Call_addFailure t e) = True"
| "is_outcome (Call_addError t e) = True"
| "is_outcome c = False"

definition new_calls :: "'w run_state \<Rightarrow> 'w run_state \<Rightarrow> 'w call list" where
  "new_calls st st' = drop (length (calls st)) (calls st')"

text \<open>
  Example inputs. The world of the example hooks is a counter of the hooks that ran; a
  hook returns, or raises an exception of a given class.
\<close>

definition raising :: "exc_class \<Rightarrow> string \<Rightarrow> nat hook" where
  "raising c msg w = (Some \<lparr>exctype = c, excvalue = msg, tb = [''__call__'', ''hook'']\<rparr>, Suc w)"

definition returning :: "nat hook" where
  "returning w = (None, Suc w)"

definition example_case :: "nat hook \<Rightarrow> nat hook \<Rightarrow> nat hook \<Rightarrow> nat TestCase" where
  "example_case s t d =
     \<lparr>testMethodName = ''testX'', testMethod = t, setUp = s, tearDown = d,
      failureException = AssertionError, tc_name = ''m.Fixture'', tc_id = ''m.Fixture.testX'',
      description = [], explanation = []\<rparr>"

text \<open>An exception class derived from \<^verbatim>\<open>AssertionError\<close>.\<close>

definition MyAssert :: exc_class where
  "MyAssert = ExcClass ''MyAssert'' [AssertionError]"

definition example_state :: "nat collector \<Rightarrow> nat run_state" where
  "example_state r = \<lparr>result = r, world = 0, calls = [], platform = ''linux2''\<rparr>"

definition example_suite :: "nat TestCase list \<Rightarrow> nat TestSuite" where
  "example_suite tcs = TestSuite_init ''TestSuite'' (map Case tcs) None"

definition example_fixture :: "string option \<Rightarrow> string option \<Rightarrow> nat fixture_class" where
  "example_fixture classDoc methodDoc =
     FixtureClass ''Fixture'' ''m'' classDoc None AssertionError
       [(''testX'', (methodDoc, returning))] []"

text \<open>
  A class with the classes it derives from, through \<^verbatim>\<open>__bases__\<close>; the test of
  \<^verbatim>\<open>getTestCaseNames\<close> that a name carries the prefix.
\<close>

fun class_closure :: "'w fixture_class \<Rightarrow> 'w fixture_class list" where
  "class_closure (FixtureClass n m d fn fe dict bases) =
     FixtureClass n m d fn fe dict bases # concat (map class_closure bases)"

definition has_prefix :: "string \<Rightarrow> string \<Rightarrow> bool" where
  "has_prefix p n = (take (length p) n = p)"

text \<open>
  The units a sequence of calls starts, in order; a collector of the base class whose
  stop flag is not set; and an example fixture, whose \<^verbatim>\<open>testA\<close> overrides the one
  of its base class.
\<close>

fun started :: "'w call list \<Rightarrow> 'w TestCase list" where
  "started [] = []"
| "started (Call_startTest t # cs) = t # started cs"
| "started (c # cs) = started cs"

definition plain_running :: "'w collector \<Rightarrow> bool" where
  "plain_running r = (case r of Plain p \<Rightarrow> shouldStop p = 0 | Text x \<Rightarrow> False)"

definition example_class :: "nat fixture_class" where
  "example_class =
     FixtureClass ''Fixture'' ''m'' None None AssertionError
       [(''testB'', (None, returning)), (''helper'', (None, returning)),
        (''testA'', (None, returning)), (''testC'', (None, returning))]
       [FixtureClass ''Base'' ''m'' None None AssertionError
          [(''testA'', (None, raising AssertionError ''base'')), (''setUp'', (None, returning))] []]"

section \<open>The collector's methods, field by field\<close>

lemmas collector_defs =
  TestResult_startTest_def TestResult_stopTest_def TestResult_addError_def
  TestResult_addFailure_def TestResult_addSuccess_def TestResult_stop_def
  TextTestResult_startTest_def TextTestResult_addSuccess_def TextTestResult_addError_def
  TextTestResult_addFailure_def TextTestResult_stop_def
  StreamWrapper_write_def StreamWrapper_writeln_def

lemma get_errors_frame [simp]:
  "get_errors (startTest r t) = get_errors r"
  "get_errors (stopTest r t) = get_errors r"
  "get_errors (addSuccess r t) = get_errors r"
  "get_errors (addFailure r t e) = get_errors r"
  "get_errors (addError r t e) = get_errors r @ [(t, e)]"
  by (cases r; simp add: collector_defs Let_def)+

lemma get_failures_frame [simp]:
  "get_failures (startTest r t) = get_failures r"
  "get_failures (stopTest r t) = get_failures r"
  "get_failures (addSuccess r t) = get_failures r"
  "get_failures (addFailure r t e) = get_failures r @ [(t, e)]"
  "get_failures (addError r t e) = get_failures r"
  by (cases r; simp add: collector_defs Let_def)+

lemma get_testsRun_frame [simp]:
  "get_testsRun (startTest r t) = get_testsRun r + 1"
  "get_testsRun (stopTest r t) = get_testsRun r"
  "get_testsRun (addSuccess r t) = get_testsRun r"
  "get_testsRun (addFailure r t e) = get_testsRun r"
  "get_testsRun (addError r t e) = get_testsRun r"
  by (cases r; simp add: collector_defs Let_def)+

lemma get_shouldStop_frame [simp]:
  "get_shouldStop (startTest r t) = get_shouldStop r"
  "get_shouldStop (stopTest r t) = get_shouldStop r"
  "get_shouldStop (addSuccess r t) = get_shouldStop r"
  "get_shouldStop (addFailure r t e) = get_shouldStop r"
  by (cases r; simp add: collector_defs Let_def)+

lemma get_shouldStop_addError:
  "get_shouldStop (addError r t e) =
     (case r of Plain p \<Rightarrow> shouldStop p
      | Text x \<Rightarrow> if exctype e = KeyboardInterrupt then 1 else shouldStop x)"
  by (cases r; simp add: collector_defs Let_def)

section \<open>One run of a test case\<close>

lemmas run_defs = TestCase_call_def run_setUp_def run_testMethod_def run_tearDown_def
  invoke_def do_startTest_def do_stopTest_def do_addError_def do_addFailure_def do_addSuccess_def

lemma TestCase_call_setUp_raises:
  assumes "setUp self (world st) = (Some e, w')"
  shows "TestCase_call self st =
     (None, st\<lparr>result := stopTest (addError (startTest (result st) self) self
                                (exc_info_min (platform st) e)) self,
               world := w',
               calls := calls st @ [Call_startTest self, Call_setUp self,
                          Call_addError self (exc_info_min (platform st) e), Call_stopTest self]\<rparr>)"
  using assms by (simp add: run_defs)

lemma TestCase_call_ends_with_stopTest:
  "last (calls (snd (TestCase_call self st))) = Call_stopTest self"
  by (simp add: run_defs Let_def split: prod.splits option.splits bool.splits)

text \<open>
  C4. When \<^verbatim>\<open>setUp\<close> raises, the run makes exactly the calls \<^verbatim>\<open>startTest\<close>,
  \<^verbatim>\<open>setUp\<close>, \<^verbatim>\<open>addError\<close>, \<^verbatim>\<open>stopTest\<close>: an error is recorded for the unit, the
  test method and \<^verbatim>\<open>tearDown\<close> are not invoked (the world is as \<^verbatim>\<open>setUp\<close> left
  it), no failure and no success is recorded. Whatever the hooks do, the last call of a
  run is \<^verbatim>\<open>stopTest\<close> for the unit.
\<close>

theorem setUp_raises_only_error:
  "(setUp self (world st) = (Some e, w') \<longrightarrow>
      fst (TestCase_call self st) = None \<and>
      calls (snd (TestCase_call self st)) =
        calls st @ [Call_startTest self, Call_setUp self,
                    Call_addError self (exc_info_min (platform st) e), Call_stopTest self] \<and>
      get_errors (result (snd (TestCase_call self st))) =
        get_errors (result st) @ [(self, exc_info_min (platform st) e)] \<and>
      get_failures (result (snd (TestCase_call self st))) = get_failures (result st) \<and>
      world (snd (TestCase_call self st)) = w')
   \<and> last (calls (snd (TestCase_call self st))) = Call_stopTest self"
  by (simp add: TestCase_call_setUp_raises TestCase_call_ends_with_stopTest)

theorem setUp_raises_only_error_witness:
  "setUp (example_case (raising Exception ''boom'') returning returning)
      (world (example_state (Plain TestResult_init))) =
     (Some \<lparr>exctype = Exception, excvalue = ''boom'', tb = [''__call__'', ''hook'']\<rparr>, 1) \<and>
   map is_outcome (calls (snd (TestCase_call (example_case (raising Exception ''boom'') returning returning)
      (example_state (Plain TestResult_init))))) = [False, False, True, False] \<and>
   length (get_errors (result (snd (TestCase_call (example_case (raising Exception ''boom'') returning returning)
      (example_state (Plain TestResult_init)))))) = 1 \<and>
   world (snd (TestCase_call (example_case (raising Exception ''boom'') returning returning)
      (example_state (Plain TestResult_init)))) = 1"
  using setUp_raises_only_error [of "example_case (raising Exception ''boom'') returning returning"
     "example_state (Plain TestResult_init)"
     "\<lparr>exctype = Exception, excvalue = ''boom'', tb = [''__call__'', ''hook'']\<rparr>" 1]
  by (simp add: example_case_def example_state_def raising_def TestResult_init_def)
lemma new_calls_append [simp]: "calls st' = calls st @ cs \<Longrightarrow> new_calls st st' = cs"
  by (simp add: new_calls_def)

lemma wasSuccessful_iff: "wasSuccessful r = (get_failures r = [] \<and> get_errors r = [])"
  by (cases r) (auto simp: TestResult_wasSuccessful_def)

lemma TestCase_call_setUp_returns:
  assumes "setUp self (world st) = (None, w1)"
    and "testMethod self w1 = (r2, w2)"
    and "tearDown self w2 = (r3, w3)"
  shows "calls (snd (TestCase_call self st)) =
           calls st @ [Call_startTest self, Call_setUp self, Call_testMethod self]
             @ (case r2 of None \<Rightarrow> []
                | Some e \<Rightarrow> [if issubclass (exctype e) (failureException self)
                              then Call_addFailure self (exc_info_min (platform st) e)
                              else Call_addError self (exc_info_min (platform st) e)])
             @ [Call_tearDown self]
             @ (case r3 of None \<Rightarrow> [] | Some e \<Rightarrow> [Call_addError self (exc_info_min (platform st) e)])
             @ (if r2 = None \<and> r3 = None then [Call_addSuccess self] else [])
             @ [Call_stopTest self]"
    and "get_failures (result (snd (TestCase_call self st))) =
           get_failures (result st)
             @ (case r2 of None \<Rightarrow> []
                | Some e \<Rightarrow> if issubclass (exctype e) (failureException self)
                             then [(self, exc_info_min (platform st) e)] else [])"
    and "get_errors (result (snd (TestCase_call self st))) =
           get_errors (result st)
             @ (case r2 of None \<Rightarrow> []
                | Some e \<Rightarrow> if issubclass (exctype e) (failureException self)
                             then [] else [(self, exc_info_min (platform st) e)])
             @ (case r3 of None \<Rightarrow> [] | Some e \<Rightarrow> [(self, exc_info_min (platform st) e)])"
    and "world (snd (TestCase_call self st)) = w3"
    and "fst (TestCase_call self st) = Some (result (snd (TestCase_call self st)))"
  using assms by (simp_all add: run_defs Let_def split: option.splits)


text \<open>
  C5. When \<^verbatim>\<open>setUp\<close> and the test method return and \<^verbatim>\<open>tearDown\<close> raises, the run
  calls \<^verbatim>\<open>addError\<close> for the unit and does not call \<^verbatim>\<open>addSuccess\<close>: the error is
  appended to the collector's errors, and the collector is no longer successful.
\<close>

theorem tearDown_raises_error_not_success:
  assumes "setUp self (world st) = (None, w1)"
    and "testMethod self w1 = (None, w2)"
    and "tearDown self w2 = (Some e, w3)"
  shows "new_calls st (snd (TestCase_call self st)) =
           [Call_startTest self, Call_setUp self, Call_testMethod self, Call_tearDown self,
            Call_addError self (exc_info_min (platform st) e), Call_stopTest self]
         \<and> Call_addSuccess self \<notin> set (new_calls st (snd (TestCase_call self st)))
         \<and> get_errors (result (snd (TestCase_call self st))) =
             get_errors (result st) @ [(self, exc_info_min (platform st) e)]
         \<and> get_failures (result (snd (TestCase_call self st))) = get_failures (result st)
         \<and> \<not> wasSuccessful (result (snd (TestCase_call self st)))"
proof -
  note c = TestCase_call_setUp_returns [OF assms]
  have n: "new_calls st (snd (TestCase_call self st)) =
           [Call_startTest self, Call_setUp self, Call_testMethod self, Call_tearDown self,
            Call_addError self (exc_info_min (platform st) e), Call_stopTest self]"
    using c(1) by simp
  show ?thesis
    using c(2,3) by (simp add: n wasSuccessful_iff)
qed

theorem tearDown_raises_error_not_success_witness:
  "map is_outcome (new_calls (example_state (Text (TextTestResult_init [] [] 1 False)))
      (snd (TestCase_call (example_case returning returning (raising Exception ''boom''))
              (example_state (Text (TextTestResult_init [] [] 1 False))))))
     = [False, False, False, False, True, False]
   \<and> \<not> wasSuccessful (result (snd (TestCase_call (example_case returning returning (raising Exception ''boom''))
              (example_state (Text (TextTestResult_init [] [] 1 False))))))"
  using tearDown_raises_error_not_success [of "example_case returning returning (raising Exception ''boom'')"
     "example_state (Text (TextTestResult_init [] [] 1 False))" 1 2
     "\<lparr>exctype = Exception, excvalue = ''boom'', tb = [''__call__'', ''hook'']\<rparr>" 3]
  by (simp add: example_case_def example_state_def raising_def returning_def)

lemma issubclass_refl: "issubclass c c"
  by (cases c) simp

text \<open>
  C3, as amended. When \<^verbatim>\<open>setUp\<close> returns and the test method raises \<open>e\<close>, the one
  call that follows the test method is \<^verbatim>\<open>addFailure\<close> if the class of \<open>e\<close> is the
  unit's \<^verbatim>\<open>failureException\<close> or a class derived from it, directly or through its
  bases, and \<^verbatim>\<open>addError\<close> if it is any other class; \<open>e\<close> is appended to the failures
  or to the errors, never to both. The only other outcome the run may add is the error
  of a raising \<^verbatim>\<open>tearDown\<close>. When the test method and \<^verbatim>\<open>tearDown\<close> both return,
  the run calls \<^verbatim>\<open>addSuccess\<close> and records no failure and no error.
\<close>

theorem check_outcome_failure_or_error:
  assumes "setUp self (world st) = (None, w1)"
    and "testMethod self w1 = (r2, w2)"
    and "tearDown self w2 = (r3, w3)"
  shows "(\<forall>e. r2 = Some e \<longrightarrow>
            new_calls st (snd (TestCase_call self st)) =
              [Call_startTest self, Call_setUp self, Call_testMethod self,
               (if issubclass (exctype e) (failureException self)
                then Call_addFailure self (exc_info_min (platform st) e)
                else Call_addError self (exc_info_min (platform st) e)),
               Call_tearDown self]
              @ (case r3 of None \<Rightarrow> []
                 | Some e3 \<Rightarrow> [Call_addError self (exc_info_min (platform st) e3)])
              @ [Call_stopTest self]
          \<and> get_failures (result (snd (TestCase_call self st))) =
              get_failures (result st)
                @ (if issubclass (exctype e) (failureException self)
                   then [(self, exc_info_min (platform st) e)] else [])
          \<and> get_errors (result (snd (TestCase_call self st))) =
              get_errors (result st)
                @ (if issubclass (exctype e) (failureException self)
                   then [] else [(self, exc_info_min (platform st) e)])
                @ (case r3 of None \<Rightarrow> []
                   | Some e3 \<Rightarrow> [(self, exc_info_min (platform st) e3)]))
       \<and> (r2 = None \<and> r3 = None \<longrightarrow>
            new_calls st (snd (TestCase_call self st)) =
              [Call_startTest self, Call_setUp self, Call_testMethod self, Call_tearDown self,
               Call_addSuccess self, Call_stopTest self]
          \<and> get_failures (result (snd (TestCase_call self st))) = get_failures (result st)
          \<and> get_errors (result (snd (TestCase_call self st))) = get_errors (result st))
       \<and> issubclass (failureException self) (failureException self)
       \<and> (issubclass c d \<longleftrightarrow> c = d \<or> (\<exists>b\<in>set (exc_bases c). issubclass b d))"
proof -
  note c = TestCase_call_setUp_returns [OF assms]
  have s: "issubclass c d \<longleftrightarrow> c = d \<or> (\<exists>b\<in>set (exc_bases c). issubclass b d)"
    by (cases c) (simp add: list_ex_iff)
  show ?thesis
    using c(1) s by (auto simp: c(2,3) issubclass_refl)
qed

theorem check_outcome_failure_or_error_witness:
  "new_calls (example_state (Plain TestResult_init))
     (snd (TestCase_call (example_case returning (raising AssertionError ''x != y'') returning)
             (example_state (Plain TestResult_init)))) =
     [Call_startTest (example_case returning (raising AssertionError ''x != y'') returning),
      Call_setUp (example_case returning (raising AssertionError ''x != y'') returning),
      Call_testMethod (example_case returning (raising AssertionError ''x != y'') returning),
      Call_addFailure (example_case returning (raising AssertionError ''x != y'') returning)
        \<lparr>exctype = AssertionError, excvalue = ''x != y'', tb = [''hook'']\<rparr>,
      Call_tearDown (example_case returning (raising AssertionError ''x != y'') returning),
      Call_stopTest (example_case returning (raising AssertionError ''x != y'') returning)]
   \<and> get_failures (result (snd (TestCase_call
          (example_case returning (raising AssertionError ''x != y'') returning)
          (example_state (Plain TestResult_init))))) =
       [(example_case returning (raising AssertionError ''x != y'') returning,
         \<lparr>exctype = AssertionError, excvalue = ''x != y'', tb = [''hook'']\<rparr>)]
   \<and> get_errors (result (snd (TestCase_call
          (example_case returning (raising AssertionError ''x != y'') returning)
          (example_state (Plain TestResult_init))))) = []
   \<and> new_calls (example_state (Plain TestResult_init))
     (snd (TestCase_call (example_case returning (raising StandardError ''bad'') returning)
             (example_state (Plain TestResult_init)))) =
     [Call_startTest (example_case returning (raising StandardError ''bad'') returning),
      Call_setUp (example_case returning (raising StandardError ''bad'') returning),
      Call_testMethod (example_case returning (raising StandardError ''bad'') returning),
      Call_addError (example_case returning (raising StandardError ''bad'') returning)
        \<lparr>exctype = StandardError, excvalue = ''bad'', tb = [''hook'']\<rparr>,
      Call_tearDown (example_case returning (raising StandardError ''bad'') returning),
      Call_stopTest (example_case returning (raising StandardError ''bad'') returning)]
   \<and> get_failures (result (snd (TestCase_call
          (example_case returning (raising StandardError ''bad'') returning)
          (example_state (Plain TestResult_init))))) = []
   \<and> get_errors (result (snd (TestCase_call
          (example_case returning (raising StandardError ''bad'') returning)
          (example_state (Plain TestResult_init))))) =
       [(example_case returning (raising StandardError ''bad'') returning,
         \<lparr>exctype = StandardError, excvalue = ''bad'', tb = [''hook'']\<rparr>)]
   \<and> \<not> issubclass StandardError AssertionError
   \<and> issubclass MyAssert AssertionError"
  using check_outcome_failure_or_error [of
     "example_case returning (raising AssertionError ''x != y'') returning"
     "example_state (Plain TestResult_init)" 1
     "Some \<lparr>exctype = AssertionError, excvalue = ''x != y'', tb = [''__call__'', ''hook'']\<rparr>" 2
     None 3 StandardError AssertionError]
   check_outcome_failure_or_error [of
     "example_case returning (raising StandardError ''bad'') returning"
     "example_state (Plain TestResult_init)" 1
     "Some \<lparr>exctype = StandardError, excvalue = ''bad'', tb = [''__call__'', ''hook'']\<rparr>" 2
     None 3 MyAssert AssertionError]
  by (simp add: example_case_def example_state_def raising_def returning_def
      exc_info_min_def AssertionError_def StandardError_def Exception_def MyAssert_def
      TestResult_init_def)

text \<open>
  C3 as stated fails: an exception of a class other than \<^verbatim>\<open>failureException\<close> is
  recorded as a failure, not as an error, when its class derives from
  \<^verbatim>\<open>failureException\<close>.
\<close>

theorem subclass_is_failure_counterexample:
  "MyAssert \<noteq> AssertionError
   \<and> failureException (example_case returning (raising MyAssert ''x != y'') returning)
       = AssertionError
   \<and> new_calls (example_state (Plain TestResult_init))
     (snd (TestCase_call (example_case returning (raising MyAssert ''x != y'') returning)
             (example_state (Plain TestResult_init)))) =
     [Call_startTest (example_case returning (raising MyAssert ''x != y'') returning),
      Call_setUp (example_case returning (raising MyAssert ''x != y'') returning),
      Call_testMethod (example_case returning (raising MyAssert ''x != y'') returning),
      Call_addFailure (example_case returning (raising MyAssert ''x != y'') returning)
        \<lparr>exctype = MyAssert, excvalue = ''x != y'', tb = [''hook'']\<rparr>,
      Call_tearDown (example_case returning (raising MyAssert ''x != y'') returning),
      Call_stopTest (example_case returning (raising MyAssert ''x != y'') returning)]
   \<and> get_failures (result (snd (TestCase_call
          (example_case returning (raising MyAssert ''x != y'') returning)
          (example_state (Plain TestResult_init))))) =
       [(example_case returning (raising MyAssert ''x != y'') returning,
         \<lparr>exctype = MyAssert, excvalue = ''x != y'', tb = [''hook'']\<rparr>)]
   \<and> get_errors (result (snd (TestCase_call
          (example_case returning (raising MyAssert ''x != y'') returning)
          (example_state (Plain TestResult_init))))) = []"
  by (simp add: run_defs Let_def new_calls_def example_case_def example_state_def raising_def
      returning_def exc_info_min_def AssertionError_def StandardError_def Exception_def
      MyAssert_def TestResult_init_def collector_defs)

text \<open>
  C1, as amended. The outcomes a run records are all for the unit itself, and they are,
  in order: when \<^verbatim>\<open>setUp\<close> raises, its error alone; otherwise the failure or the
  error of the test method if it raises, then the error of \<^verbatim>\<open>tearDown\<close> if it
  raises, and \<^verbatim>\<open>addSuccess\<close> if neither raises. So every run records at least one
  outcome for its unit, and exactly one unless the test method and \<^verbatim>\<open>tearDown\<close> both
  raise: then two, the failure or error of the test method followed by the error of
  \<^verbatim>\<open>tearDown\<close>.
\<close>

theorem outcome_calls_one_or_two:
  assumes "setUp self (world st) = (r1, w1)"
    and "testMethod self w1 = (r2, w2)"
    and "tearDown self w2 = (r3, w3)"
  shows "filter is_outcome (new_calls st (snd (TestCase_call self st))) =
           (case r1 of
              Some e1 \<Rightarrow> [Call_addError self (exc_info_min (platform st) e1)]
            | None \<Rightarrow>
                (case r2 of
                   None \<Rightarrow> []
                 | Some e2 \<Rightarrow>
                     [if issubclass (exctype e2) (failureException self)
                      then Call_addFailure self (exc_info_min (platform st) e2)
                      else Call_addError self (exc_info_min (platform st) e2)])
                @ (case r3 of
                     None \<Rightarrow> []
                   | Some e3 \<Rightarrow> [Call_addError self (exc_info_min (platform st) e3)])
                @ (if r2 = None \<and> r3 = None then [Call_addSuccess self] else []))
         \<and> length (filter is_outcome (new_calls st (snd (TestCase_call self st)))) =
           (if r1 = None \<and> r2 \<noteq> None \<and> r3 \<noteq> None then 2 else 1)"
proof (cases r1)
  case None
  note c = TestCase_call_setUp_returns [OF assms(1) [unfolded None] assms(2,3)]
  show ?thesis
    using c(1) None by (auto split: option.splits)
next
  case (Some e)
  show ?thesis
    using assms(1) Some by (simp add: TestCase_call_setUp_raises)
qed

theorem outcome_calls_one_or_two_witness:
  "filter is_outcome
     (new_calls (example_state (Plain TestResult_init))
        (snd (TestCase_call (example_case returning returning returning)
                (example_state (Plain TestResult_init))))) =
     [Call_addSuccess (example_case returning returning returning)]
   \<and> filter is_outcome
     (new_calls (example_state (Plain TestResult_init))
        (snd (TestCase_call
                (example_case returning (raising StandardError ''bad'') (raising Exception ''boom''))
                (example_state (Plain TestResult_init))))) =
     [Call_addError
        (example_case returning (raising StandardError ''bad'') (raising Exception ''boom''))
        \<lparr>exctype = StandardError, excvalue = ''bad'', tb = [''hook'']\<rparr>,
      Call_addError
        (example_case returning (raising StandardError ''bad'') (raising Exception ''boom''))
        \<lparr>exctype = Exception, excvalue = ''boom'', tb = [''hook'']\<rparr>]
   \<and> filter is_outcome
     (new_calls (example_state (Plain TestResult_init))
        (snd (TestCase_call
                (example_case (raising Exception ''boom'') returning returning)
                (example_state (Plain TestResult_init))))) =
     [Call_addError (example_case (raising Exception ''boom'') returning returning)
        \<lparr>exctype = Exception, excvalue = ''boom'', tb = [''hook'']\<rparr>]"
  using outcome_calls_one_or_two [of "example_case returning returning returning"
     "example_state (Plain TestResult_init)" None 1 None 2 None 3]
    outcome_calls_one_or_two [of
     "example_case returning (raising StandardError ''bad'') (raising Exception ''boom'')"
     "example_state (Plain TestResult_init)" None 1
     "Some \<lparr>exctype = StandardError, excvalue = ''bad'', tb = [''__call__'', ''hook'']\<rparr>" 2
     "Some \<lparr>exctype = Exception, excvalue = ''boom'', tb = [''__call__'', ''hook'']\<rparr>" 3]
    outcome_calls_one_or_two [of
     "example_case (raising Exception ''boom'') returning returning"
     "example_state (Plain TestResult_init)"
     "Some \<lparr>exctype = Exception, excvalue = ''boom'', tb = [''__call__'', ''hook'']\<rparr>" 1
     None 2 None 3]
  by (simp add: example_case_def example_state_def raising_def returning_def
      exc_info_min_def AssertionError_def StandardError_def Exception_def)

text \<open>
  C1 as stated fails: a unit whose test method raises the failure exception and whose
  \<^verbatim>\<open>tearDown\<close> raises gets a failure and an error in the same run.
\<close>

theorem exactly_one_outcome_counterexample:
  "filter is_outcome
     (new_calls (example_state (Plain TestResult_init))
        (snd (TestCase_call
                (example_case returning (raising AssertionError ''x != y'') (raising Exception ''boom''))
                (example_state (Plain TestResult_init))))) =
   [Call_addFailure
      (example_case returning (raising AssertionError ''x != y'') (raising Exception ''boom''))
      \<lparr>exctype = AssertionError, excvalue = ''x != y'', tb = [''hook'']\<rparr>,
    Call_addError
      (example_case returning (raising AssertionError ''x != y'') (raising Exception ''boom''))
      \<lparr>exctype = Exception, excvalue = ''boom'', tb = [''hook'']\<rparr>]"
  by (simp add: run_defs Let_def new_calls_def example_case_def example_state_def raising_def
      returning_def exc_info_min_def AssertionError_def)

section \<open>Suites and the stop flag\<close>

lemma run_tests_stopped:
  "get_shouldStop (result st) \<noteq> 0 \<Longrightarrow> run_tests ts st = st"
  by (cases ts) simp_all

lemma TestSuite_call_stopped:
  "get_shouldStop (result st) \<noteq> 0 \<Longrightarrow> TestSuite_call s st = st"
  by (cases s) (simp add: run_tests_stopped)






text \<open>
  C7, as amended. \<^verbatim>\<open>addError\<close> of either collector appends the error to the errors
  and leaves the failures alone. \<^verbatim>\<open>_TextTestResult.addError\<close> also sets the stop flag
  when the class of the exception is \<^verbatim>\<open>KeyboardInterrupt\<close>, and a suite called with
  the resulting collector starts nothing more; for any other class it leaves the flag
  as it was. \<^verbatim>\<open>TestResult.addError\<close> of the base class leaves the flag as it was
  for every class.
\<close>

theorem keyboard_interrupt_stops_run:
  "get_errors (addError r test err) = get_errors r @ [(test, err)]
   \<and> get_failures (addError r test err) = get_failures r
   \<and> get_shouldStop (addError (Text self) test err) =
       (if exctype err = KeyboardInterrupt then 1 else shouldStop self)
   \<and> get_shouldStop (addError (Plain base) test err) = shouldStop base
   \<and> errors (TextTestResult_addError self test err) = errors self @ [(test, err)]
   \<and> failures (TextTestResult_addError self test err) = failures self
   \<and> (exctype err = KeyboardInterrupt \<longrightarrow>
        shouldStop (TextTestResult_addError self test err) = 1
        \<and> TestSuite_call s (st\<lparr>result := addError (Text self) test err\<rparr>) =
            st\<lparr>result := addError (Text self) test err\<rparr>)
   \<and> (exctype err \<noteq> KeyboardInterrupt \<longrightarrow>
        shouldStop (TextTestResult_addError self test err) = shouldStop self)"
proof -
  have "exctype err = KeyboardInterrupt \<Longrightarrow>
        get_shouldStop (result (st\<lparr>result := addError (Text self) test err\<rparr>)) \<noteq> 0"
    by (simp add: collector_defs Let_def)
  then show ?thesis
    by (simp add: TestSuite_call_stopped get_shouldStop_addError)
       (simp add: collector_defs Let_def)
qed


theorem keyboard_interrupt_stops_run_witness:
  "shouldStop (TextTestResult_addError (TextTestResult_init [] [] 1 False)
      (example_case returning (raising KeyboardInterrupt []) returning)
      \<lparr>exctype = KeyboardInterrupt, excvalue = [], tb = [''hook'']\<rparr>) = 1
   \<and> get_errors (addError (Text (TextTestResult_init [] [] 1 False))
      (example_case returning (raising KeyboardInterrupt []) returning)
      \<lparr>exctype = KeyboardInterrupt, excvalue = [], tb = [''hook'']\<rparr>) =
      [(example_case returning (raising KeyboardInterrupt []) returning,
        \<lparr>exctype = KeyboardInterrupt, excvalue = [], tb = [''hook'']\<rparr>)]
   \<and> get_shouldStop (addError (Text (TextTestResult_init [] [] 1 False))
      (example_case returning (raising KeyboardInterrupt []) returning)
      \<lparr>exctype = KeyboardInterrupt, excvalue = [], tb = [''hook'']\<rparr>) = 1
   \<and> TestSuite_call (example_suite [example_case returning returning returning])
        (example_state (addError (Text (TextTestResult_init [] [] 1 False))
           (example_case returning (raising KeyboardInterrupt []) returning)
           \<lparr>exctype = KeyboardInterrupt, excvalue = [], tb = [''hook'']\<rparr>))
       = example_state (addError (Text (TextTestResult_init [] [] 1 False))
           (example_case returning (raising KeyboardInterrupt []) returning)
           \<lparr>exctype = KeyboardInterrupt, excvalue = [], tb = [''hook'']\<rparr>)"
  using keyboard_interrupt_stops_run [where self = "TextTestResult_init [] [] 1 False"
      and test = "example_case returning (raising KeyboardInterrupt []) returning"
      and err = "\<lparr>exctype = KeyboardInterrupt, excvalue = [], tb = [''hook'']\<rparr>"
      and s = "example_suite [example_case returning returning returning]"
      and st = "example_state (Plain TestResult_init)"
      and r = "Text (TextTestResult_init [] [] 1 False)"
      and base = TestResult_init]
  by (simp add: example_state_def TextTestResult_init_def)

text \<open>
  C7 as stated fails for the collector of the base class, the one
  \<^verbatim>\<open>defaultTestResult\<close> creates: the \<^verbatim>\<open>KeyboardInterrupt\<close> is appended to the
  errors, the stop flag stays 0, and a suite goes on to start its next unit.
\<close>

theorem keyboard_interrupt_plain_counterexample:
  "get_errors (addError (defaultTestResult (example_case returning (raising KeyboardInterrupt []) returning))
      (example_case returning (raising KeyboardInterrupt []) returning)
      \<lparr>exctype = KeyboardInterrupt, excvalue = [], tb = [''hook'']\<rparr>) =
      [(example_case returning (raising KeyboardInterrupt []) returning,
        \<lparr>exctype = KeyboardInterrupt, excvalue = [], tb = [''hook'']\<rparr>)]
   \<and> get_shouldStop (addError (defaultTestResult (example_case returning (raising KeyboardInterrupt []) returning))
      (example_case returning (raising KeyboardInterrupt []) returning)
      \<lparr>exctype = KeyboardInterrupt, excvalue = [], tb = [''hook'']\<rparr>) = 0
   \<and> map (exctype \<circ> snd) (get_errors (result (TestSuite_call
       (example_suite [example_case returning (raising KeyboardInterrupt []) returning,
                       example_case returning returning returning])
       (example_state (Plain TestResult_init))))) = [KeyboardInterrupt]
   \<and> get_shouldStop (result (TestSuite_call
       (example_suite [example_case returning (raising KeyboardInterrupt []) returning,
                       example_case returning returning returning])
       (example_state (Plain TestResult_init)))) = 0
   \<and> get_testsRun (result (TestSuite_call
       (example_suite [example_case returning (raising KeyboardInterrupt []) returning,
                       example_case returning returning returning])
       (example_state (Plain TestResult_init)))) = 2
   \<and> started (calls (TestSuite_call
       (example_suite [example_case returning (raising KeyboardInterrupt []) returning,
                       example_case returning returning returning])
       (example_state (Plain TestResult_init)))) =
       [example_case returning (raising KeyboardInterrupt []) returning,
        example_case returning returning returning]"
  by (simp add: example_suite_def TestSuite_init_def addTests_def addTest_def addTest_name_def
      example_case_def example_state_def run_defs Let_def raising_def returning_def
      TestResult_init_def defaultTestResult_def collector_defs exc_info_min_def
      KeyboardInterrupt_def AssertionError_def StandardError_def Exception_def)

text \<open>
  A suite of two units whose first test method raises \<^verbatim>\<open>KeyboardInterrupt\<close>: against
  a text collector only the first unit runs (its three hooks, one error); against a
  plain \<^verbatim>\<open>TestResult\<close> both units run.
\<close>

lemma interrupted_suite_example:
  "get_testsRun (result (TestSuite_call
       (example_suite [example_case returning (raising KeyboardInterrupt []) returning,
                       example_case returning returning returning])
       (example_state (Text (TextTestResult_init [] [] 1 False))))) = 1
   \<and> map fst (get_errors (result (TestSuite_call
       (example_suite [example_case returning (raising KeyboardInterrupt []) returning,
                       example_case returning returning returning])
       (example_state (Text (TextTestResult_init [] [] 1 False)))))) =
       [example_case returning (raising KeyboardInterrupt []) returning]
   \<and> world (TestSuite_call
       (example_suite [example_case returning (raising KeyboardInterrupt []) returning,
                       example_case returning returning returning])
       (example_state (Text (TextTestResult_init [] [] 1 False)))) = 3
   \<and> get_testsRun (result (TestSuite_call
       (example_suite [example_case returning (raising KeyboardInterrupt []) returning,
                       example_case returning returning returning])
       (example_state (Plain TestResult_init)))) = 2"
  by (simp add: example_suite_def TestSuite_init_def addTests_def addTest_def addTest_name_def example_case_def
      example_state_def run_defs Let_def raising_def returning_def TextTestResult_init_def
      TestResult_init_def collector_defs exc_info_min_def
      KeyboardInterrupt_def AssertionError_def StandardError_def Exception_def)

section \<open>Counting and naming the items of a suite\<close>

lemma foldl_add_sum_list:
  "foldl (\<lambda>cases test. cases + f test) a ts = a + sum_list (map f ts)"
  for a :: int
  by (induction ts arbitrary: a) simp_all

lemma countTestCases_sum:
  "countTestCases s = sum_list (map test_countTestCases (tests s))"
  by (cases s) (simp add: foldl_add_sum_list)

lemma tests_addTest [simp]: "tests (addTest self t) = tests self @ [t]"
  by (simp add: addTest_def)

lemma tests_addTests [simp]: "tests (addTests self ts) = tests self @ ts"
  by (induction ts arbitrary: self) (simp_all add: addTests_def)

text \<open>
  C8. \<^verbatim>\<open>countTestCases\<close> of a suite is the sum of \<^verbatim>\<open>countTestCases\<close> over its
  items in order, where a nested suite counts as its own \<^verbatim>\<open>countTestCases\<close> and a
  test case as 1; an empty suite has 0. The count is a function of the current
  \<^verbatim>\<open>_tests\<close>: after \<^verbatim>\<open>addTest\<close> or \<^verbatim>\<open>addTests\<close> it has grown by the counts of the
  items added.
\<close>

theorem countTestCases_is_sum:
  "countTestCases s = sum_list (map test_countTestCases (tests s))
   \<and> test_countTestCases (Nested s) = countTestCases s
   \<and> test_countTestCases (Case tc) = 1
   \<and> countTestCases (TestSuite_init cls [] name) = 0
   \<and> countTestCases (TestSuite_init cls [Case tc] name) = 1
   \<and> countTestCases (addTest s t) = countTestCases s + test_countTestCases t
   \<and> countTestCases (addTests s ts) = countTestCases s + sum_list (map test_countTestCases ts)"
  by (simp add: countTestCases_sum TestSuite_init_def TestCase_countTestCases_def)

theorem countTestCases_is_sum_witness:
  "countTestCases
     (addTest (TestSuite_init ''TestSuite''
                 [Nested (example_suite [example_case returning returning returning,
                                         example_case returning returning returning]),
                  Case (example_case returning returning returning)] None)
        (Nested (example_suite [example_case returning returning returning]))) = 4"
  using countTestCases_is_sum [where
      s = "TestSuite_init ''TestSuite''
                 [Nested (example_suite [example_case returning returning returning,
                                         example_case returning returning returning]),
                  Case (example_case returning returning returning)] None"
      and t = "Nested (example_suite [example_case returning returning returning])"
      and tc = "example_case returning returning returning" and cls = "[]" and name = None
      and ts = "[]"]
  by (simp add: example_suite_def TestSuite_init_def addTests_def addTest_def
      TestCase_countTestCases_def)

lemma testMap_addTest:
  "testMap (addTest self t) = (testMap self)(addTest_name t \<mapsto> t)"
  by (simp add: addTest_def)

text \<open>
  C10. For a nested suite without a name (\<^verbatim>\<open>suiteName\<close> is \<^verbatim>\<open>None\<close> or empty) the
  key \<^verbatim>\<open>addTest\<close> uses is the name of the suite's class. \<^verbatim>\<open>addTest\<close> appends the
  item to \<^verbatim>\<open>_tests\<close> and binds the key to it in \<^verbatim>\<open>_testMap\<close>, leaving the other
  keys as they were; so when two items added one after the other have the same key,
  \<^verbatim>\<open>getTestForName\<close> returns the later one while both are in \<^verbatim>\<open>_tests\<close>, in the
  order added.
\<close>

theorem addTest_overwrites_same_name:
  "(suiteName a = None \<or> suiteName a = Some [] \<longrightarrow> addTest_name (Nested a) = suite_class a)
   \<and> tests (addTest (addTest self x) y) = tests self @ [x, y]
   \<and> getTestForName (addTest self x) (addTest_name x) = Inr x
   \<and> (addTest_name x = addTest_name y \<longrightarrow>
        getTestForName (addTest (addTest self x) y) (addTest_name x) = Inr y)
   \<and> (k \<noteq> addTest_name x \<longrightarrow> getTestForName (addTest self x) k = getTestForName self k)"
  by (auto simp: getTestForName_def testMap_addTest addTest_name_def)

theorem addTest_overwrites_same_name_witness:
  "addTest_name (Nested (example_suite [example_case returning returning returning])) = ''TestSuite''
   \<and> addTest_name (Nested (example_suite [])) = ''TestSuite''
   \<and> getTestForName
        (addTest (addTest (TestSuite_init ''TestSuite'' [] (Some ''outer''))
                    (Nested (example_suite [example_case returning returning returning])))
           (Nested (example_suite [])))
        ''TestSuite'' = Inr (Nested (example_suite []))
   \<and> tests (addTest (addTest (TestSuite_init ''TestSuite'' [] (Some ''outer''))
                    (Nested (example_suite [example_case returning returning returning])))
           (Nested (example_suite []))) =
       [Nested (example_suite [example_case returning returning returning]),
        Nested (example_suite [])]"
  using addTest_overwrites_same_name [where a = "example_suite []"
     and self = "TestSuite_init ''TestSuite'' [] (Some ''outer'')"
     and x = "Nested (example_suite [example_case returning returning returning])"
     and y = "Nested (example_suite [])" and k = "''other''"]
  by (simp add: addTest_name_def example_suite_def TestSuite_init_def addTests_def addTest_def)

section \<open>The description of a test case\<close>

text \<open>
  The docstring \<^verbatim>\<open>_setupMetaData\<close> splits is never empty, so it has a first line
  and \<^verbatim>\<open>docLines[0]\<close> does not raise.
\<close>

lemma splitlines_from_nonempty: "s \<noteq> [] \<Longrightarrow> splitlines_from cur s \<noteq> []"
  by (induction cur s rule: splitlines_from.induct) auto

lemma splitlines_doc_nonempty: "splitlines (doc_or_newline doc) \<noteq> []"
  by (simp add: splitlines_def doc_or_newline_def splitlines_from_nonempty split: option.splits)

lemma doc_description_eq: "doc_description doc = strip (hd (splitlines (doc_or_newline doc)))"
  using splitlines_doc_nonempty [of doc]
  by (simp add: doc_description_def Let_def split: list.splits)

lemma doc_description_no_doc: "doc_description None = []" "doc_description (Some []) = []"
  by (simp_all add: doc_description_def doc_or_newline_def splitlines_def strip_def isspace_def)

text \<open>
  C2, as amended. The description built at construction is the first line of the
  fixture's docstring, stripped, then a comma and a space, then the first line of the
  test method's docstring, stripped, whenever the fixture's part is not empty (also
  when the method's part is empty); when the fixture's part is empty it is the method's
  part alone.
\<close>

theorem description_comma_when_fixture_doc:
  assumes "class_lookup c methodName = Some (methodDoc, body)"
  shows "map_sum id description (TestCase_init c methodName) =
           Inr (if doc_description (cls_doc c) = [] then doc_description methodDoc
                else doc_description (cls_doc c) @ '', '' @ doc_description methodDoc)
         \<and> doc_description (cls_doc c) = strip (hd (splitlines (doc_or_newline (cls_doc c))))
         \<and> doc_description methodDoc = strip (hd (splitlines (doc_or_newline methodDoc)))"
  using assms
  by (simp add: TestCase_init_def setupMetaData_def Let_def doc_description_eq)

theorem description_comma_when_fixture_doc_witness:
  "class_lookup (example_fixture (Some ''Fixture doc'') (Some (''  Checks addition.'' @ [CHR 0x0A] @ ''  More text.''))) ''testX''
     = Some (Some (''  Checks addition.'' @ [CHR 0x0A] @ ''  More text.''), returning)
   \<and> map_sum id description
        (TestCase_init (example_fixture (Some ''Fixture doc'') (Some (''  Checks addition.'' @ [CHR 0x0A] @ ''  More text.''))) ''testX'')
     = Inr ''Fixture doc, Checks addition.''"
  using description_comma_when_fixture_doc [of
     "example_fixture (Some ''Fixture doc'') (Some (''  Checks addition.'' @ [CHR 0x0A] @ ''  More text.''))"
     "''testX''" "Some (''  Checks addition.'' @ [CHR 0x0A] @ ''  More text.'')" returning]
  by (simp add: example_fixture_def doc_description_def doc_or_newline_def splitlines_def
      strip_def isspace_def)

text \<open>
  C2 as stated fails: with a fixture docstring and no docstring on the test method the
  description is the fixture's part followed by the comma and the space, not the
  fixture's part alone.
\<close>

theorem description_comma_counterexample:
  "doc_description (Some ''Fixture doc'') = ''Fixture doc''
   \<and> doc_description None = []
   \<and> map_sum id description (TestCase_init (example_fixture (Some ''Fixture doc'') None) ''testX'')
       = Inr ''Fixture doc, ''"
  by (simp add: TestCase_init_def setupMetaData_def Let_def example_fixture_def
      doc_description_def doc_or_newline_def splitlines_def strip_def isspace_def)

section \<open>The names and the order of a fixture's tests\<close>

lemma append_absent_set:
  "set (foldl (\<lambda>names x. if x \<notin> set names then names @ [x] else names) acc xs) = set acc \<union> set xs"
  by (induction xs arbitrary: acc) auto

lemma append_absent_distinct:
  "distinct acc \<Longrightarrow>
   distinct (foldl (\<lambda>names x. if x \<notin> set names then names @ [x] else names) acc xs)"
  by (induction xs arbitrary: acc) auto

lemma merge_bases_set:
  "set (foldl (\<lambda>names b. foldl (\<lambda>names x. if x \<notin> set names then names @ [x] else names)
                             names (f b)) acc bs)
   = set acc \<union> (\<Union>b\<in>set bs. set (f b))"
  by (induction bs arbitrary: acc) (auto simp: append_absent_set)

lemma merge_bases_distinct:
  "distinct acc \<Longrightarrow>
   distinct (foldl (\<lambda>names b. foldl (\<lambda>names x. if x \<notin> set names then names @ [x] else names)
                             names (f b)) acc bs)"
  by (induction bs arbitrary: acc) (auto simp: append_absent_distinct)

lemma set_insort_cmp [simp]: "set (insort_cmp f x ys) = insert x (set ys)"
  by (induction ys) auto

lemma distinct_insort_cmp [simp]: "distinct (insort_cmp f x ys) = (x \<notin> set ys \<and> distinct ys)"
  by (induction ys) auto

lemma set_sort_cmp [simp]: "set (sort_cmp f xs) = set xs"
  by (induction xs) (simp_all add: sort_cmp_def)

lemma distinct_sort_cmp [simp]: "distinct (sort_cmp f xs) = distinct xs"
  by (induction xs) (simp_all add: sort_cmp_def set_sort_cmp [unfolded sort_cmp_def])

lemma insort_cmp_cmp: "insort_cmp cmp x ys = insort x ys"
  by (induction ys) (auto simp: cmp_def)

lemma sort_cmp_cmp: "sort_cmp cmp xs = sort xs"
proof -
  have "insort_cmp cmp = insort" by (intro ext) (rule insort_cmp_cmp)
  then show ?thesis by (simp add: sort_cmp_def sort_key_def)
qed

lemma getTestCaseNames_unfold:
  "getTestCaseNames pydir self c =
     (let merged =
            foldl (\<lambda>names b. foldl (\<lambda>names x. if x \<notin> set names then names @ [x] else names)
                                names (getTestCaseNames pydir self b))
              (filter (\<lambda>n. take (length (testMethodPrefix self)) n = testMethodPrefix self) (pydir c))
              (cls_bases c)
      in case sortTestMethodsUsing self of None \<Rightarrow> merged | Some f \<Rightarrow> sort_cmp f merged)"
  by (cases c) (simp add: Let_def)

lemma getTestCaseNames_set:
  "set (getTestCaseNames pydir self c) =
     {n \<in> (\<Union>d\<in>set (class_closure c). set (pydir d)). has_prefix (testMethodPrefix self) n}"
proof (induction c)
  case (FixtureClass n m d fn fe dict bases)
  have ih: "\<And>b. b \<in> set bases \<Longrightarrow> set (getTestCaseNames pydir self b) =
     {n \<in> (\<Union>d\<in>set (class_closure b). set (pydir d)). has_prefix (testMethodPrefix self) n}"
    using FixtureClass by simp
  show ?case
    by (subst getTestCaseNames_unfold)
       (auto simp: Let_def merge_bases_set ih has_prefix_def split: option.splits)
qed

lemma getTestCaseNames_distinct:
  "distinct (pydir c) \<Longrightarrow> distinct (getTestCaseNames pydir self c)"
  by (subst getTestCaseNames_unfold)
     (simp add: Let_def merge_bases_distinct split: option.splits)

lemma getTestCaseNames_sorted:
  "sortTestMethodsUsing self = Some cmp \<Longrightarrow> sorted (getTestCaseNames pydir self c)"
  by (subst getTestCaseNames_unfold) (simp add: Let_def sort_cmp_cmp)


lemma started_append [simp]: "started (xs @ ys) = started xs @ started ys"
  by (induction xs rule: started.induct) simp_all

lemma started_TestCase_call:
  "started (calls (snd (TestCase_call tc st))) = started (calls st) @ [tc]"
proof (cases "setUp tc (world st)")
  case (Pair r1 w1)
  show ?thesis
  proof (cases r1)
    case (Some e)
    with Pair show ?thesis by (simp add: TestCase_call_setUp_raises)
  next
    case None
    obtain r2 w2 where t: "testMethod tc w1 = (r2, w2)" by (cases "testMethod tc w1")
    obtain r3 w3 where d: "tearDown tc w2 = (r3, w3)" by (cases "tearDown tc w2")
    show ?thesis
      using TestCase_call_setUp_returns(1) [OF Pair [unfolded None] t d]
      by (simp split: option.splits)
  qed
qed

lemma plain_running_frame:
  "plain_running r \<Longrightarrow> plain_running (startTest r t)"
  "plain_running r \<Longrightarrow> plain_running (stopTest r t)"
  "plain_running r \<Longrightarrow> plain_running (addSuccess r t)"
  "plain_running r \<Longrightarrow> plain_running (addFailure r t e)"
  "plain_running r \<Longrightarrow> plain_running (addError r t e)"
  by (cases r; simp add: plain_running_def collector_defs)+

lemma plain_running_TestCase_call:
  assumes "plain_running (result st)"
  shows "plain_running (result (snd (TestCase_call tc st)))"
proof (cases "setUp tc (world st)")
  case (Pair r1 w1)
  show ?thesis
  proof (cases r1)
    case (Some e)
    with Pair assms show ?thesis
      by (simp add: TestCase_call_setUp_raises plain_running_frame)
  next
    case None
    obtain r2 w2 where t: "testMethod tc w1 = (r2, w2)" by (cases "testMethod tc w1")
    obtain r3 w3 where d: "tearDown tc w2 = (r3, w3)" by (cases "tearDown tc w2")
    from Pair None t d assms show ?thesis
      by (simp add: run_defs Let_def plain_running_frame split: option.splits)
  qed
qed

lemma plain_running_not_stopped: "plain_running r \<Longrightarrow> get_shouldStop r = 0"
  by (cases r) (simp_all add: plain_running_def)

lemma run_tests_cases_started:
  "plain_running (result st) \<Longrightarrow>
   started (calls (run_tests (map Case tcs) st)) = started (calls st) @ tcs"
proof (induction tcs arbitrary: st)
  case Nil
  then show ?case by simp
next
  case (Cons tc tcs)
  have "plain_running (result (snd (TestCase_call tc st)))"
    using Cons.prems by (rule plain_running_TestCase_call)
  from Cons.IH [OF this] Cons.prems show ?case
    by (simp add: plain_running_not_stopped started_TestCase_call)
qed

lemma calls_TestCase_call_prefix:
  "\<exists>cs. calls (snd (TestCase_call tc st)) = calls st @ cs"
proof (cases "setUp tc (world st)")
  case (Pair r1 w1)
  show ?thesis
  proof (cases r1)
    case (Some e)
    with Pair show ?thesis by (simp add: TestCase_call_setUp_raises)
  next
    case None
    obtain r2 w2 where t: "testMethod tc w1 = (r2, w2)" by (cases "testMethod tc w1")
    obtain r3 w3 where d: "tearDown tc w2 = (r3, w3)" by (cases "tearDown tc w2")
    show ?thesis
      using TestCase_call_setUp_returns(1) [OF Pair [unfolded None] t d] by simp
  qed
qed

lemma calls_run_tests_cases_prefix:
  "\<exists>cs. calls (run_tests (map Case tcs) st) = calls st @ cs"
proof (induction tcs arbitrary: st)
  case Nil
  then show ?case by simp
next
  case (Cons tc tcs)
  obtain cs where a: "calls (snd (TestCase_call tc st)) = calls st @ cs"
    using calls_TestCase_call_prefix by blast
  obtain ds where b: "calls (run_tests (map Case tcs) (snd (TestCase_call tc st))) =
      calls (snd (TestCase_call tc st)) @ ds"
    using Cons.IH by blast
  show ?case by (simp add: a b)
qed

lemma new_calls_run_tests_cases_started:
  assumes "plain_running (result st)"
  shows "started (new_calls st (run_tests (map Case tcs) st)) = tcs"
proof -
  obtain cs where a: "calls (run_tests (map Case tcs) st) = calls st @ cs"
    using calls_run_tests_cases_prefix by blast
  from run_tests_cases_started [OF assms, of tcs] a show ?thesis by simp
qed


lemma first_found_None: "first_found xs = None \<longleftrightarrow> (\<forall>x\<in>set xs. x = None)"
  by (induction xs rule: first_found.induct) auto

lemma class_lookup_None:
  "class_lookup c a = None \<longleftrightarrow> a \<notin> set (class_attr_names c)"
proof (induction c)
  case (FixtureClass n m d fn fe dict bases)
  have "class_lookup (FixtureClass n m d fn fe dict bases) a = None \<longleftrightarrow>
        map_of dict a = None \<and> (\<forall>b\<in>set bases. class_lookup b a = None)"
    by (simp add: first_found_None split: option.splits)
  then show ?case
    using FixtureClass by (simp add: map_of_eq_None_iff)
qed

lemma class_closure_attr_names:
  "d \<in> set (class_closure c) \<Longrightarrow> set (class_attr_names d) \<subseteq> set (class_attr_names c)"
proof (induction c)
  case (FixtureClass n m dc fn fe dict bases)
  then show ?case by auto
qed

lemma TestCase_init_Inr:
  "TestCase_init c n = Inr tc \<Longrightarrow> testMethodName tc = n"
  by (auto simp: TestCase_init_def split: option.splits prod.splits)

lemma TestCase_init_succeeds:
  "n \<in> set (class_attr_names c) \<Longrightarrow> \<exists>tc. TestCase_init c n = Inr tc"
  using class_lookup_None [of c n]
  by (auto simp: TestCase_init_def split: option.splits prod.splits)

lemma map_raise_Inr:
  "map_raise f xs = Inr ys \<Longrightarrow> map f xs = map Inr ys"
  by (induction xs arbitrary: ys) (auto split: sum.splits)

lemma map_raise_succeeds:
  "(\<And>x. x \<in> set xs \<Longrightarrow> \<exists>y. f x = Inr y) \<Longrightarrow> \<exists>ys. map_raise f xs = Inr ys"
proof (induction xs)
  case Nil
  then show ?case by simp
next
  case (Cons x xs)
  obtain y where y: "f x = Inr y" using Cons.prems by auto
  obtain ys where ys: "map_raise f xs = Inr ys" using Cons by auto
  show ?case by (simp add: y ys)
qed

lemma map_raise_TestCase_init_names:
  assumes "map_raise (TestCase_init c) ns = Inr tcs"
  shows "map testMethodName tcs = ns"
proof -
  have "map (TestCase_init c) ns = map Inr tcs" using assms by (rule map_raise_Inr)
  then show ?thesis
  proof (induction ns arbitrary: tcs)
    case Nil
    then show ?case by simp
  next
    case (Cons n ns)
    then obtain tc rest where "tcs = tc # rest" by (cases tcs) auto
    with Cons show ?case by (auto dest: TestCase_init_Inr)
  qed
qed

lemma tests_TestSuite_init [simp]: "tests (TestSuite_init cls ts name) = ts"
  by (simp add: TestSuite_init_def)

lemma TestSuite_call_tests: "TestSuite_call s st = run_tests (tests s) st"
  by (cases s) simp

text \<open>
  C9. Whatever \<^verbatim>\<open>dir\<close> lists, as long as it lists no name twice for the class
  itself: \<^verbatim>\<open>getTestCaseNames\<close> returns each name once; the names are exactly those
  with the prefix that \<^verbatim>\<open>dir\<close> lists for the class or for a class it derives from
  (a name of both is not repeated); with \<^verbatim>\<open>cmp\<close> as \<^verbatim>\<open>sortTestMethodsUsing\<close> they
  are in ascending string order. When \<^verbatim>\<open>dir\<close> lists attributes that exist,
  \<^verbatim>\<open>loadTestsFromTestCase\<close> returns a suite whose items are the test cases of these
  names in this order, and run against a plain collector that is not stopped the
  suite starts them in this order. The witness is the fixture with \<^verbatim>\<open>testB\<close>,
  \<^verbatim>\<open>testA\<close>, \<^verbatim>\<open>testC\<close>.
\<close>

theorem getTestCaseNames_once_and_sorted:
  assumes "distinct (pydir c)"
  shows "distinct (getTestCaseNames pydir self c)
    \<and> set (getTestCaseNames pydir self c) =
        {n \<in> (\<Union>d\<in>set (class_closure c). set (pydir d)). has_prefix (testMethodPrefix self) n}
    \<and> (sortTestMethodsUsing self = Some cmp \<longrightarrow> sorted (getTestCaseNames pydir self c))
    \<and> ((\<forall>d\<in>set (class_closure c). set (pydir d) \<subseteq> set (class_attr_names d)) \<longrightarrow>
        (\<exists>s. loadTestsFromTestCase pydir self c = Inr s
           \<and> map addTest_name (tests s) = getTestCaseNames pydir self c
           \<and> (\<forall>st. plain_running (result st) \<longrightarrow>
                 map testMethodName (started (new_calls st (TestSuite_call s st))) =
                   getTestCaseNames pydir self c)))"
proof -
  let ?names = "getTestCaseNames pydir self c"
  have load: "\<exists>s. loadTestsFromTestCase pydir self c = Inr s
           \<and> map addTest_name (tests s) = ?names
           \<and> (\<forall>st. plain_running (result st) \<longrightarrow>
                 map testMethodName (started (new_calls st (TestSuite_call s st))) = ?names)"
    if sub: "\<forall>d\<in>set (class_closure c). set (pydir d) \<subseteq> set (class_attr_names d)"
  proof -
    have "set ?names \<subseteq> set (class_attr_names c)"
      using sub class_closure_attr_names [of _ c] by (auto simp: getTestCaseNames_set)
    then have "\<And>n. n \<in> set ?names \<Longrightarrow> \<exists>tc. TestCase_init c n = Inr tc"
      by (auto intro: TestCase_init_succeeds)
    then obtain tcs where tcs: "map_raise (TestCase_init c) ?names = Inr tcs"
      using map_raise_succeeds [of ?names "TestCase_init c"] by blast
    have names: "map testMethodName tcs = ?names"
      using tcs by (rule map_raise_TestCase_init_names)
    let ?s = "TestSuite_init (suiteClass self) (map Case tcs) (Some (cls_name c))"
    have 1: "loadTestsFromTestCase pydir self c = Inr ?s"
      by (simp add: loadTestsFromTestCase_def tcs)
    have 2: "map addTest_name (tests ?s) = ?names"
      using names by (simp add: addTest_name_def comp_def)
    have 3: "map testMethodName (started (new_calls st (TestSuite_call ?s st))) = ?names"
      if "plain_running (result st)" for st
      using new_calls_run_tests_cases_started [OF that, of tcs] names
      by (simp add: TestSuite_call_tests)
    from 1 2 3 show ?thesis by blast
  qed
  show ?thesis
    using assms load
    by (simp add: getTestCaseNames_distinct getTestCaseNames_set getTestCaseNames_sorted)
qed


lemma distinct_dir: "distinct (dir_own c)"
  by (simp add: dir_own_def)

lemma dir_within_attrs:
  "set (dir_own d) \<subseteq> set (class_attr_names d)"
  by (cases d) (auto simp: dir_own_def)

lemma example_names:
  "getTestCaseNames dir_own defaultTestLoader example_class = [''testA'', ''testB'', ''testC'']"
  by (simp add: example_class_def defaultTestLoader_def dir_own_def Let_def sort_cmp_cmp)

theorem getTestCaseNames_once_and_sorted_witness:
  "distinct (dir_own example_class)
   \<and> getTestCaseNames dir_own defaultTestLoader example_class = [''testA'', ''testB'', ''testC'']
   \<and> map_sum id
        (\<lambda>s. map testMethodName
               (started (calls (TestSuite_call s (example_state (Plain TestResult_init))))))
        (loadTestsFromTestCase dir_own defaultTestLoader example_class)
       = Inr [''testA'', ''testB'', ''testC'']"
proof -
  have sub: "\<forall>d\<in>set (class_closure example_class). set (dir_own d) \<subseteq> set (class_attr_names d)"
    by (simp add: dir_within_attrs)
  have run: "plain_running (result (example_state (Plain TestResult_init)))"
    by (simp add: plain_running_def example_state_def TestResult_init_def)
  have nc: "new_calls (example_state (Plain TestResult_init)) st = calls st" for st
    by (simp add: new_calls_def example_state_def)
  from getTestCaseNames_once_and_sorted [where pydir = dir_own and c = example_class
      and self = defaultTestLoader] distinct_dir [of example_class] sub run
  obtain s where "loadTestsFromTestCase dir_own defaultTestLoader example_class = Inr s"
    and "map testMethodName (started (new_calls (example_state (Plain TestResult_init))
            (TestSuite_call s (example_state (Plain TestResult_init))))) =
         getTestCaseNames dir_own defaultTestLoader example_class"
    by blast
  then show ?thesis
    by (simp add: nc example_names distinct_dir)
qed

end
